theory Spec2Isabelle
  imports Main "HOL-Library.Sublist"
begin

section \<open>The script \<open>debug_wasm.py\<close>\<close>

text \<open>
  The whole program is one module body:
  \<^verbatim>\<open>
  result = subprocess.run([
      'cargo', 'test', 'stdlib::numeric_ops::tests::test_add', '--', '--nocapture'
  ], capture_output=True, text=True, cwd='/Users/earcandy/Documents/Dev/Clean Language')

  print("STDOUT:")
  print(result.stdout)
  print("\nSTDERR:")
  print(result.stderr)
  print(f"\nReturn code: {result.returncode}")
  \<close>
  It has one call into the process facility and five \<open>print\<close> statements. The
  embedding keeps the three things the script does itself: the order and the text of the
  prints, the absence of any exception handler, and the absence of any explicit exit.
\<close>

subsection \<open>Data\<close>

text \<open>
  The object bound to \<open>result\<close>: with \<open>capture_output=True\<close> and
  \<open>text=True\<close> both streams are text, and \<open>returncode\<close> is an integer (negative
  when the child was ended by a signal).
\<close>

record CompletedProcess =
  stdout :: string
  stderr :: string
  returncode :: int

text \<open>
  Modelled from the spec: the ways in which the call to the process facility can raise
  (the error taxonomy of section 7; the source names no exception). LaunchError: the
  executable is not found or the working directory is missing or invalid. CaptureError:
  the redirected output streams cannot be established or read.
\<close>

datatype error = LaunchError | CaptureError

text \<open>
  What the invoking process shows to the outside: the text written to its two output
  streams so far, and its exit status once it has ended.
\<close>

record process =
  sys_stdout :: string
  sys_stderr :: string
  exit_status :: "int option"

definition initial_process :: process where
  "initial_process = \<lparr>sys_stdout = [], sys_stderr = [], exit_status = None\<rparr>"

subsection \<open>Printing\<close>

text \<open>
  \<open>print(s)\<close> with no further argument writes \<open>s\<close> and then one newline to
  \<open>sys.stdout\<close>.
\<close>

definition py_print :: "string \<Rightarrow> process \<Rightarrow> process" where
  "py_print s p = p\<lparr>sys_stdout := sys_stdout p @ s @ ''\<newline>''\<rparr>"

text \<open>
  The text an f-string puts for an integer: its decimal digits, most significant first,
  after a minus sign when it is negative.
\<close>

fun dec_nat :: "nat \<Rightarrow> string" where
  "dec_nat n =
     (if n < 10 then [''0123456789'' ! n]
      else dec_nat (n div 10) @ [''0123456789'' ! (n mod 10)])"

declare dec_nat.simps [simp del]

definition str_int :: "int \<Rightarrow> string" where
  "str_int i = (if i < 0 then ''-'' @ dec_nat (nat (- i)) else dec_nat (nat i))"

subsection \<open>The report (lines 10 to 14)\<close>

definition report :: "CompletedProcess \<Rightarrow> process \<Rightarrow> process" where
  "report result p0 =
     (let p1 = py_print ''STDOUT:'' p0;
          p2 = py_print (stdout result) p1;
          p3 = py_print ''\<newline>STDERR:'' p2;
          p4 = py_print (stderr result) p3;
          p5 = py_print (''\<newline>Return code: '' @ str_int (returncode result)) p4
      in p5)"

text \<open>
  The arguments of the five \<open>print\<close> statements, in the order of the source. Each
  statement writes its argument and a newline, so the report is these five, printed one
  after the other (lemma \<open>report_as_prints\<close> below).
\<close>

definition report_prints :: "CompletedProcess \<Rightarrow> string list" where
  "report_prints result =
     [''STDOUT:'',
      stdout result,
      ''\<newline>STDERR:'',
      stderr result,
      ''\<newline>Return code: '' @ str_int (returncode result)]"

subsection \<open>The module body\<close>

text \<open>
  The script has no \<open>try\<close>: an exception raised by the call in line 6 ends the
  program there. The interpreter then writes a traceback to the standard error stream
  and the exit status is 1. The traceback is abbreviated here to its first line and the
  name of the exception.
\<close>

fun error_name :: "error \<Rightarrow> string" where
  "error_name LaunchError = ''LaunchError''"
| "error_name CaptureError = ''CaptureError''"

definition traceback :: "error \<Rightarrow> string" where
  "traceback e = ''Traceback (most recent call last):\<newline>'' @ error_name e @ ''\<newline>''"

definition uncaught :: "error \<Rightarrow> process \<Rightarrow> process" where
  "uncaught e p = p\<lparr>sys_stderr := sys_stderr p @ traceback e, exit_status := Some 1\<rparr>"

text \<open>
  The process facility is a parameter \<open>runner\<close>: given the argument vector and the
  working directory it either raises or returns the completed process. The script calls
  it once, prints the report and runs off its end, which is exit status 0.
\<close>

definition run_and_report ::
  "(string list \<Rightarrow> string \<Rightarrow> error + CompletedProcess) \<Rightarrow> string list \<Rightarrow> string
     \<Rightarrow> process \<Rightarrow> process" where
  "run_and_report runner argv cwd p =
     (case runner argv cwd of
        Inl e \<Rightarrow> uncaught e p
      | Inr result \<Rightarrow> (report result p)\<lparr>exit_status := Some 0\<rparr>)"

text \<open>The script itself: the argument vector and the directory are the literals of the source.\<close>

definition debug_wasm ::
  "(string list \<Rightarrow> string \<Rightarrow> error + CompletedProcess) \<Rightarrow> process \<Rightarrow> process" where
  "debug_wasm runner p =
     run_and_report runner
       [''cargo'', ''test'', ''stdlib::numeric_ops::tests::test_add'', ''--'', ''--nocapture'']
       ''/Users/earcandy/Documents/Dev/Clean Language'' p"

section \<open>The process facility\<close>

text \<open>
  The call \<open>subprocess.run\<close> and the operating system behind it are not part of the
  repository. The definitions of this section follow section 4.1 of the specification (the
  Command Runner); the script above does not depend on them.
\<close>

text \<open>
  Modelled from the spec: a child program, which the spec treats as a black box "that
  produces text on two output streams and an integer exit code". It is given the argument
  vector, the working directory and whatever of the machine it can read and change (the
  world), and returns its result with the world it leaves behind. A deterministic child is
  a function of these.
\<close>

type_synonym 'w program = "string list \<Rightarrow> string \<Rightarrow> 'w \<Rightarrow> CompletedProcess \<times> 'w"

text \<open>
  Modelled from the spec: the machine the Runner works on. The directories that exist, the
  executables the search mechanism resolves, whether the redirected streams can be
  established, the number of process-table entries created so far, and the world.
\<close>

record 'w os =
  directories :: "string list"
  search_path :: "(string \<times> 'w program) list"
  capture_available :: bool
  spawned :: nat
  world :: 'w

text \<open>
  Modelled from the spec: the Runner of section 4.1, which stands for \<open>subprocess.run\<close>
  with captured text streams. "The working directory must exist; if it does not, the
  operation fails before any child process is created." "Fails with a LaunchError when the
  executable cannot be found or the working directory is invalid; fails with an
  IOError-type condition if stream capture cannot be established." Otherwise it "spawns one
  OS-level child process", waits for it and returns "the full captured text of both streams
  and the integer exit code"; a non-zero exit code is not an error.
\<close>

definition subprocess_run ::
  "'w os \<Rightarrow> string list \<Rightarrow> string \<Rightarrow> (error + CompletedProcess) \<times> 'w os" where
  "subprocess_run os argv cwd =
     (if cwd \<notin> set (directories os) then (Inl LaunchError, os)
      else case argv of
        [] \<Rightarrow> (Inl LaunchError, os)
      | exe # args \<Rightarrow>
          (case map_of (search_path os) exe of
             None \<Rightarrow> (Inl LaunchError, os)
           | Some prog \<Rightarrow>
               if \<not> capture_available os then (Inl CaptureError, os)
               else (case prog argv cwd (world os) of
                       (result, w') \<Rightarrow>
                         (Inr result, os\<lparr>spawned := Suc (spawned os), world := w'\<rparr>))))"

text \<open>The Runner on a given machine, as the parameter of the script.\<close>

definition runner_of :: "'w os \<Rightarrow> string list \<Rightarrow> string \<Rightarrow> error + CompletedProcess" where
  "runner_of os argv cwd = fst (subprocess_run os argv cwd)"

text \<open>
  Modelled from the spec: a "side-effect-free child program" (section 8). The program the
  argument vector resolves to leaves the world as it found it.
\<close>

definition side_effect_free :: "'w os \<Rightarrow> string list \<Rightarrow> string \<Rightarrow> bool" where
  "side_effect_free os argv cwd =
     (case argv of
        [] \<Rightarrow> True
      | exe # args \<Rightarrow>
          (case map_of (search_path os) exe of
             None \<Rightarrow> True
           | Some prog \<Rightarrow> snd (prog argv cwd (world os)) = world os))"

subsection \<open>An example machine\<close>

text \<open>
  Two child programs for the examples: \<open>echo\<close> writes its arguments, separated by
  spaces, and a newline; \<open>tick\<close> writes a counter it keeps in the world and increments
  it, so it is deterministic but not free of side effects.
\<close>

fun join_args :: "string list \<Rightarrow> string" where
  "join_args [] = []"
| "join_args [a] = a"
| "join_args (a # b # rest) = a @ '' '' @ join_args (b # rest)"

definition echo :: "'w program" where
  "echo argv cwd w =
     (\<lparr>stdout = join_args (tl argv) @ ''\<newline>'', stderr = [], returncode = 0\<rparr>, w)"

definition tick :: "nat program" where
  "tick argv cwd w = (\<lparr>stdout = dec_nat w @ ''\<newline>'', stderr = [], returncode = 0\<rparr>, Suc w)"

definition example_os :: "nat os" where
  "example_os =
     \<lparr>directories = [''/tmp''], search_path = [(''echo'', echo), (''tick'', tick)],
      capture_available = True, spawned = 0, world = 0\<rparr>"

section \<open>Reading a decimal numeral\<close>

text \<open>The value of a digit string, used to check that \<open>dec_nat\<close> writes decimal.\<close>

definition digit_value :: "char \<Rightarrow> nat" where
  "digit_value c = of_char c - 48"

definition decimal_value :: "string \<Rightarrow> nat" where
  "decimal_value s = foldl (\<lambda>a c. 10 * a + digit_value c) 0 s"

text \<open>
  What it is for a text to be the decimal numeral of an integer, stated without reference
  to \<open>dec_nat\<close>: a non-empty string of the digits 0 to 9 with no leading zero (the
  single digit 0 apart) whose positional value is the magnitude, after a minus sign exactly
  when the integer is negative. Each integer has exactly one such text (lemmas
  \<open>is_decimal_str_int\<close> and \<open>is_decimal_unique\<close> below).
\<close>

definition canonical_digits :: "string \<Rightarrow> bool" where
  "canonical_digits ds =
     (ds \<noteq> [] \<and> set ds \<subseteq> set ''0123456789'' \<and> (ds = ''0'' \<or> hd ds \<noteq> CHR ''0''))"

definition is_decimal :: "string \<Rightarrow> int \<Rightarrow> bool" where
  "is_decimal s i =
     (if i < 0
      then s \<noteq> [] \<and> hd s = CHR ''-'' \<and> canonical_digits (tl s) \<and> int (decimal_value (tl s)) = - i
      else canonical_digits s \<and> int (decimal_value s) = i)"

section \<open>Counting what is written\<close>

text \<open>
  The lines of a text (each ended by a newline; a last line without one counts too), and
  those of them that start with one of the three labels of the source.
\<close>

fun lines_from :: "string \<Rightarrow> string \<Rightarrow> string list" where
  "lines_from cur [] = (if cur = [] then [] else [cur])"
| "lines_from cur (c # cs) =
     (if c = CHR 0x0A then cur # lines_from [] cs else lines_from (cur @ [c]) cs)"

definition lines_of :: "string \<Rightarrow> string list" where
  "lines_of s = lines_from [] s"

definition labels :: "string list" where
  "labels = [''STDOUT:'', ''STDERR:'', ''Return code: '']"

definition labelled_lines :: "string \<Rightarrow> string list" where
  "labelled_lines s = filter (\<lambda>l. list_ex (\<lambda>lab. prefix lab l) labels) (lines_of s)"

section \<open>Basic facts\<close>

lemma py_print_stdout: "sys_stdout (py_print s p) = sys_stdout p @ s @ ''\<newline>''"
  by (simp add: py_print_def)

lemma py_print_stderr: "sys_stderr (py_print s p) = sys_stderr p"
  by (simp add: py_print_def)

lemma py_print_exit: "exit_status (py_print s p) = exit_status p"
  by (simp add: py_print_def)

lemma report_stdout:
  "sys_stdout (report result p) =
     sys_stdout p @ ''STDOUT:\<newline>'' @ stdout result @ ''\<newline>\<newline>STDERR:\<newline>'' @ stderr result
       @ ''\<newline>\<newline>Return code: '' @ str_int (returncode result) @ ''\<newline>''"
  by (simp add: report_def Let_def py_print_stdout)

lemma report_stderr: "sys_stderr (report result p) = sys_stderr p"
  by (simp add: report_def Let_def py_print_stderr)

lemma report_exit: "exit_status (report result p) = exit_status p"
  by (simp add: report_def Let_def py_print_exit)

lemma run_and_report_result:
  "runner argv cwd = Inr result \<Longrightarrow>
     run_and_report runner argv cwd p = (report result p)\<lparr>exit_status := Some 0\<rparr>"
  by (simp add: run_and_report_def)

lemma run_and_report_error:
  "runner argv cwd = Inl e \<Longrightarrow> run_and_report runner argv cwd p = uncaught e p"
  by (simp add: run_and_report_def)

lemma debug_wasm_result:
  "runner [''cargo'', ''test'', ''stdlib::numeric_ops::tests::test_add'', ''--'', ''--nocapture'']
       ''/Users/earcandy/Documents/Dev/Clean Language'' = Inr result \<Longrightarrow>
     debug_wasm runner p = (report result p)\<lparr>exit_status := Some 0\<rparr>"
  by (simp add: debug_wasm_def run_and_report_result)

lemma debug_wasm_error:
  "runner [''cargo'', ''test'', ''stdlib::numeric_ops::tests::test_add'', ''--'', ''--nocapture'']
       ''/Users/earcandy/Documents/Dev/Clean Language'' = Inl e \<Longrightarrow>
     debug_wasm runner p = uncaught e p"
  by (simp add: debug_wasm_def run_and_report_error)

lemma initial_process_streams:
  "sys_stdout initial_process = []" "sys_stderr initial_process = []"
  by (simp_all add: initial_process_def)

lemma str_int_0: "str_int 0 = ''0''"
  by (simp add: str_int_def dec_nat.simps)

lemma str_int_neg_one: "str_int (- 1) = ''-1''"
  by (simp add: str_int_def dec_nat.simps)

lemma digit_value_nth: "d < 10 \<Longrightarrow> digit_value (''0123456789'' ! d) = d"
proof -
  assume "d < 10"
  then have "d \<in> {0, 1, 2, 3, 4, 5, 6, 7, 8, 9}" by auto
  then show ?thesis by (auto simp add: digit_value_def)
qed

lemma decimal_value_snoc: "decimal_value (s @ [c]) = 10 * decimal_value s + digit_value c"
  by (simp add: decimal_value_def)

lemma decimal_value_dec_nat: "decimal_value (dec_nat n) = n"
proof (induction n rule: dec_nat.induct)
  case (1 n)
  show ?case
  proof (cases "n < 10")
    case True
    then show ?thesis
      by (simp add: dec_nat.simps [of n] decimal_value_def digit_value_nth)
  next
    case False
    with "1" have "decimal_value (dec_nat (n div 10)) = n div 10" by simp
    with False show ?thesis
      by (simp add: dec_nat.simps [of n] decimal_value_snoc digit_value_nth)
  qed
qed

lemma str_int_nonneg: "0 \<le> i \<Longrightarrow> int (decimal_value (str_int i)) = i"
  by (simp add: str_int_def decimal_value_dec_nat)

lemma str_int_neg: "i < 0 \<Longrightarrow> str_int i = CHR ''-'' # str_int (- i)"
  by (simp add: str_int_def)

lemma report_as_prints:
  "report result p = foldl (\<lambda>q s. py_print s q) p (report_prints result)"
  by (simp add: report_def report_prints_def Let_def)

lemma str_int_101: "str_int 101 = ''101''"
  by (simp add: str_int_def dec_nat.simps)

subsection \<open>The decimal numeral\<close>

lemma digit_char_in: "d < 10 \<Longrightarrow> ''0123456789'' ! d \<in> set ''0123456789''"
  by (rule nth_mem) simp

lemma digit_char_zero: "d < 10 \<Longrightarrow> (''0123456789'' ! d = CHR ''0'') = (d = 0)"
proof -
  assume "d < 10"
  then have "d \<in> {0, 1, 2, 3, 4, 5, 6, 7, 8, 9}" by auto
  then show ?thesis by auto
qed

lemma digit_char_value:
  "c \<in> set ''0123456789'' \<Longrightarrow> ''0123456789'' ! digit_value c = c \<and> digit_value c < 10"
  by (auto simp add: digit_value_def)

lemma dec_nat_nonempty: "dec_nat n \<noteq> []"
  by (subst dec_nat.simps) simp

lemma dec_nat_digits: "set (dec_nat n) \<subseteq> set ''0123456789''"
proof (induction n rule: dec_nat.induct)
  case (1 n)
  show ?case
  proof (cases "n < 10")
    case True
    then show ?thesis
      using digit_char_in [of n] by (simp add: dec_nat.simps [of n])
  next
    case False
    with "1" have "set (dec_nat (n div 10)) \<subseteq> set ''0123456789''" by simp
    moreover have "''0123456789'' ! (n mod 10) \<in> set ''0123456789''"
      by (rule digit_char_in) simp
    ultimately show ?thesis
      using False by (simp add: dec_nat.simps [of n])
  qed
qed

lemma dec_nat_hd: "0 < n \<Longrightarrow> hd (dec_nat n) \<noteq> CHR ''0''"
proof (induction n rule: dec_nat.induct)
  case (1 n)
  show ?case
  proof (cases "n < 10")
    case True
    then have "dec_nat n = [''0123456789'' ! n]"
      by (subst dec_nat.simps) (simp only: if_True)
    then have "hd (dec_nat n) = ''0123456789'' ! n"
      by (simp only: list.sel)
    moreover from True "1.prems" have "''0123456789'' ! n \<noteq> CHR ''0''"
      using digit_char_zero [of n] by blast
    ultimately show ?thesis by metis
  next
    case False
    then have "0 < n div 10" by simp
    with "1.IH" False have "hd (dec_nat (n div 10)) \<noteq> CHR ''0''" by simp
    with False show ?thesis
      by (simp add: dec_nat.simps [of n] dec_nat_nonempty)
  qed
qed

lemma dec_nat_0: "dec_nat 0 = ''0''"
  by (simp add: dec_nat.simps)

lemma canonical_dec_nat: "canonical_digits (dec_nat n)"
proof (cases "n = 0")
  case True
  then show ?thesis by (simp add: canonical_digits_def dec_nat_0)
next
  case False
  then show ?thesis
    using dec_nat_digits [of n] by (simp add: canonical_digits_def dec_nat_nonempty dec_nat_hd)
qed

text \<open>The text \<open>str_int\<close> writes is the decimal numeral of the integer.\<close>

lemma is_decimal_str_int: "is_decimal (str_int i) i"
  by (simp add: is_decimal_def str_int_def canonical_dec_nat decimal_value_dec_nat)

lemma canonical_digits_unique: "canonical_digits ds \<Longrightarrow> ds = dec_nat (decimal_value ds)"
proof (induction ds rule: rev_induct)
  case Nil
  then show ?case by (simp add: canonical_digits_def)
next
  case (snoc c xs)
  from snoc.prems have c: "c \<in> set ''0123456789''"
    by (simp add: canonical_digits_def)
  then have cv: "''0123456789'' ! digit_value c = c" and cl: "digit_value c < 10"
    using digit_char_value by blast+
  show ?case
  proof (cases "xs = []")
    case True
    with cv cl show ?thesis
      by (simp add: decimal_value_def dec_nat.simps [of "digit_value c"])
  next
    case False
    with snoc.prems have hd: "hd xs \<noteq> CHR ''0''" and sub: "set xs \<subseteq> set ''0123456789''"
      by (auto simp add: canonical_digits_def)
    with False have can: "canonical_digits xs"
      by (simp add: canonical_digits_def)
    with snoc.IH have xs: "xs = dec_nat (decimal_value xs)" by simp
    have pos: "0 < decimal_value xs"
    proof (rule ccontr)
      assume "\<not> 0 < decimal_value xs"
      with xs have "xs = ''0''" by (simp add: dec_nat_0)
      with hd show False by simp
    qed
    let ?n = "decimal_value (xs @ [c])"
    have n: "?n = 10 * decimal_value xs + digit_value c"
      by (rule decimal_value_snoc)
    with pos have big: "\<not> ?n < 10" by simp
    from n cl have "?n div 10 = decimal_value xs" and "?n mod 10 = digit_value c"
      by simp_all
    with big xs cv show ?thesis
      by (simp add: dec_nat.simps [of ?n])
  qed
qed

text \<open>And it is the only one: the predicate admits no other text for the integer.\<close>

lemma is_decimal_unique: "is_decimal s i \<Longrightarrow> s = str_int i"
proof (cases "i < 0")
  case True
  assume "is_decimal s i"
  with True have s: "s \<noteq> []" "hd s = CHR ''-''" and can: "canonical_digits (tl s)"
    and v: "int (decimal_value (tl s)) = - i"
    by (simp_all add: is_decimal_def)
  from can have "tl s = dec_nat (decimal_value (tl s))" by (rule canonical_digits_unique)
  moreover from v have "decimal_value (tl s) = nat (- i)" by simp
  ultimately have "tl s = dec_nat (nat (- i))" by simp
  with s True show ?thesis
    by (cases s) (simp_all add: str_int_def)
next
  case False
  assume "is_decimal s i"
  with False have can: "canonical_digits s" and v: "int (decimal_value s) = i"
    by (simp_all add: is_decimal_def)
  from can have "s = dec_nat (decimal_value s)" by (rule canonical_digits_unique)
  moreover from v have "decimal_value s = nat i" by simp
  ultimately show ?thesis using False by (simp add: str_int_def)
qed

subsection \<open>The Runner\<close>

lemma subprocess_run_missing_cwd:
  "cwd \<notin> set (directories os) \<Longrightarrow> subprocess_run os argv cwd = (Inl LaunchError, os)"
  by (simp add: subprocess_run_def)

lemma subprocess_run_success:
  assumes "cwd \<in> set (directories os)" and "map_of (search_path os) exe = Some prog"
    and "capture_available os"
  shows "subprocess_run os (exe # args) cwd =
           (Inr (fst (prog (exe # args) cwd (world os))),
            os\<lparr>spawned := Suc (spawned os), world := snd (prog (exe # args) cwd (world os))\<rparr>)"
  using assms by (simp add: subprocess_run_def split: prod.splits)

lemma subprocess_run_no_capture:
  assumes "cwd \<in> set (directories os)" and "map_of (search_path os) exe = Some prog"
    and "\<not> capture_available os"
  shows "subprocess_run os (exe # args) cwd = (Inl CaptureError, os)"
  using assms by (simp add: subprocess_run_def)

text \<open>A child with side effects need not give the same result twice.\<close>

lemma tick_not_idempotent:
  "fst (subprocess_run example_os [''tick''] ''/tmp'') \<noteq>
   fst (subprocess_run (snd (subprocess_run example_os [''tick''] ''/tmp'')) [''tick''] ''/tmp'')"
  by (simp add: subprocess_run_def example_os_def tick_def dec_nat.simps)

section \<open>The claims\<close>

subsection \<open>The report\<close>

text \<open>
  C1, as amended. When the argument vector is \<open>["echo", "hello"]\<close> and the working
  directory is a valid existing directory (on a machine where \<open>echo\<close> resolves and
  the streams can be captured), the run yields standard output \<open>"hello\n"\<close>, empty
  standard error and exit code 0, and the printed report is exactly: \<open>STDOUT:\<close>,
  newline, \<open>hello\<close>, newline, two blank lines, \<open>STDERR:\<close>, newline, two blank
  lines, \<open>Return code: 0\<close>, newline. The captured text already ends in a newline and
  \<open>print\<close> adds one more, so two blank lines, not one, stand between \<open>hello\<close>
  and \<open>STDERR:\<close>.
\<close>

theorem echo_hello_report:
  assumes "cwd \<in> set (directories os)" and "map_of (search_path os) ''echo'' = Some echo"
    and "capture_available os"
  shows "runner_of os [''echo'', ''hello''] cwd
           = Inr \<lparr>stdout = ''hello\<newline>'', stderr = '''', returncode = 0\<rparr>
       \<and> sys_stdout (run_and_report (runner_of os) [''echo'', ''hello''] cwd initial_process) =
           ''STDOUT:\<newline>hello\<newline>\<newline>\<newline>STDERR:\<newline>\<newline>\<newline>Return code: 0\<newline>''"
proof -
  have "subprocess_run os [''echo'', ''hello''] cwd =
      (Inr (fst (echo [''echo'', ''hello''] cwd (world os))),
       os\<lparr>spawned := Suc (spawned os), world := snd (echo [''echo'', ''hello''] cwd (world os))\<rparr>)"
    using assms by (rule subprocess_run_success)
  then have run: "runner_of os [''echo'', ''hello''] cwd
      = Inr \<lparr>stdout = ''hello\<newline>'', stderr = '''', returncode = 0\<rparr>"
    by (simp add: runner_of_def echo_def)
  then show ?thesis
    by (simp add: run_and_report_result report_stdout str_int_0 initial_process_streams)
qed

text \<open>The amended statement on the example machine, in the directory \<open>/tmp\<close>.\<close>

theorem echo_hello_report_witness:
  "''/tmp'' \<in> set (directories example_os)
   \<and> map_of (search_path example_os) ''echo'' = Some echo
   \<and> capture_available example_os
   \<and> runner_of example_os [''echo'', ''hello''] ''/tmp''
        = Inr \<lparr>stdout = ''hello\<newline>'', stderr = '''', returncode = 0\<rparr>
   \<and> sys_stdout (run_and_report (runner_of example_os) [''echo'', ''hello''] ''/tmp'' initial_process) =
        ''STDOUT:\<newline>hello\<newline>\<newline>\<newline>STDERR:\<newline>\<newline>\<newline>Return code: 0\<newline>''"
proof -
  have a: "''/tmp'' \<in> set (directories example_os)" by (simp add: example_os_def)
  have b: "map_of (search_path example_os) ''echo'' = Some echo" by (simp add: example_os_def)
  have c: "capture_available example_os" by (simp add: example_os_def)
  from echo_hello_report [OF a b c] a b c show ?thesis by simp
qed

text \<open>
  C1 as stated fails: on the example machine the directory exists and the run yields the
  result of the scenario, but the printed text is not the block with a single blank line
  after \<open>hello\<close>.
\<close>

theorem echo_hello_report_counterexample:
  "''/tmp'' \<in> set (directories example_os)
   \<and> map_of (search_path example_os) ''echo'' = Some echo
   \<and> capture_available example_os
   \<and> runner_of example_os [''echo'', ''hello''] ''/tmp''
        = Inr \<lparr>stdout = ''hello\<newline>'', stderr = '''', returncode = 0\<rparr>
   \<and> sys_stdout (run_and_report (runner_of example_os) [''echo'', ''hello''] ''/tmp'' initial_process) \<noteq>
        ''STDOUT:\<newline>hello\<newline>\<newline>STDERR:\<newline>\<newline>\<newline>Return code: 0\<newline>''"
proof -
  have run: "runner_of example_os [''echo'', ''hello''] ''/tmp''
      = Inr \<lparr>stdout = ''hello\<newline>'', stderr = '''', returncode = 0\<rparr>"
    by (simp add: runner_of_def subprocess_run_def example_os_def echo_def)
  have "sys_stdout (run_and_report (runner_of example_os) [''echo'', ''hello''] ''/tmp'' initial_process) =
      ''STDOUT:\<newline>hello\<newline>\<newline>\<newline>STDERR:\<newline>\<newline>\<newline>Return code: 0\<newline>''"
    using run by (simp add: run_and_report_result report_stdout str_int_0 initial_process_streams)
  with run show ?thesis by (simp add: example_os_def)
qed

text \<open>
  C2, as amended. For every completed process the reporting step writes, with its five
  \<open>print\<close> statements, exactly three labelled blocks to the standard output of the
  invoking process, in this order: the label \<open>STDOUT:\<close> on a line and the captured
  standard output verbatim; an empty line, the label \<open>STDERR:\<close> on a line and the
  captured standard error verbatim; an empty line and \<open>Return code: \<close> followed by the
  decimal numeral of the exit code. Each block ends with the newline of its last
  \<open>print\<close>.
\<close>

theorem report_three_blocks:
  "sys_stdout (report result p) =
     sys_stdout p
       @ concat [''STDOUT:'' @ ''\<newline>'' @ stdout result @ ''\<newline>'',
                 ''\<newline>'' @ ''STDERR:'' @ ''\<newline>'' @ stderr result @ ''\<newline>'',
                 ''\<newline>'' @ ''Return code: '' @ str_int (returncode result) @ ''\<newline>'']
   \<and> is_decimal (str_int (returncode result)) (returncode result)
   \<and> foldl (\<lambda>q s. py_print s q) p (report_prints result) = report result p
   \<and> length (report_prints result) = 5"
  by (simp add: report_stdout is_decimal_str_int report_as_prints [symmetric])
    (simp add: report_prints_def)

text \<open>A failing test run: both streams are non-empty and the exit code is 101.\<close>

theorem report_three_blocks_witness:
  "sys_stdout (report \<lparr>stdout = ''running 1 test\<newline>'', stderr = ''error: test failed\<newline>'', returncode = 101\<rparr> initial_process) =
     ''STDOUT:\<newline>running 1 test\<newline>\<newline>\<newline>STDERR:\<newline>error: test failed\<newline>\<newline>\<newline>Return code: 101\<newline>''
   \<and> is_decimal ''101'' 101
   \<and> length (report_prints \<lparr>stdout = ''running 1 test\<newline>'', stderr = ''error: test failed\<newline>'', returncode = 101\<rparr>) = 5"
  using report_three_blocks
    [of "\<lparr>stdout = ''running 1 test\<newline>'', stderr = ''error: test failed\<newline>'', returncode = 101\<rparr>" initial_process]
  by (simp add: str_int_101 initial_process_streams)

text \<open>
  C2 as stated fails: nothing the reporting step writes comes in fours. For the same run
  there are five \<open>print\<close> statements, three lines that carry a label, five lines that
  are not empty and nine lines in all.
\<close>

theorem report_four_blocks_counterexample:
  "length (report_prints \<lparr>stdout = ''running 1 test\<newline>'', stderr = ''error: test failed\<newline>'', returncode = 101\<rparr>) = 5
   \<and> length (labelled_lines (sys_stdout (report
        \<lparr>stdout = ''running 1 test\<newline>'', stderr = ''error: test failed\<newline>'', returncode = 101\<rparr> initial_process))) = 3
   \<and> length (filter (\<lambda>l. l \<noteq> []) (lines_of (sys_stdout (report
        \<lparr>stdout = ''running 1 test\<newline>'', stderr = ''error: test failed\<newline>'', returncode = 101\<rparr> initial_process)))) = 5
   \<and> length (lines_of (sys_stdout (report
        \<lparr>stdout = ''running 1 test\<newline>'', stderr = ''error: test failed\<newline>'', returncode = 101\<rparr> initial_process))) = 9"
  by (simp add: report_prints_def report_stdout str_int_101 initial_process_streams
      labelled_lines_def lines_of_def labels_def)

text \<open>
  C9. For every completed process with fields \<open>(out, err, code)\<close> the full text the
  wrapper prints is
  \<open>"STDOUT:\n" + out + "\n\nSTDERR:\n" + err + "\n\nReturn code: " + decimal(code) + "\n"\<close>:
  one newline more than its own content follows each captured text, and the text put for
  the code is its decimal numeral.
\<close>

theorem printed_text_exact:
  "runner argv cwd = Inr \<lparr>stdout = out, stderr = err, returncode = code\<rparr> \<Longrightarrow>
     sys_stdout (run_and_report runner argv cwd initial_process) =
       ''STDOUT:\<newline>'' @ out @ ''\<newline>\<newline>STDERR:\<newline>'' @ err @ ''\<newline>\<newline>Return code: '' @ str_int code @ ''\<newline>''
     \<and> is_decimal (str_int code) code"
  by (simp add: run_and_report_result report_stdout initial_process_def is_decimal_str_int)

text \<open>An empty captured standard output still gives a blank line; a negative code keeps its sign.\<close>

theorem printed_text_exact_witness:
  "sys_stdout (run_and_report (\<lambda>argv cwd. Inr \<lparr>stdout = '''', stderr = ''boom'', returncode = - 1\<rparr>)
       [''cargo'', ''test''] ''/tmp'' initial_process) =
     ''STDOUT:\<newline>\<newline>\<newline>STDERR:\<newline>boom\<newline>\<newline>Return code: -1\<newline>''
   \<and> is_decimal ''-1'' (- 1)"
  using printed_text_exact [of "\<lambda>argv cwd. Inr \<lparr>stdout = '''', stderr = ''boom'', returncode = - 1\<rparr>"
      "[''cargo'', ''test'']" "''/tmp''" "''''" "''boom''" "- 1"]
  by (simp add: str_int_neg_one)

text \<open>
  C6. When the child wrote the string \<open>S\<close> to its standard output and exited with 0,
  the printed report contains \<open>"STDOUT:\n" + S\<close> and \<open>"Return code: 0"\<close> as
  contiguous substrings.
\<close>

theorem report_contains_stdout_block:
  assumes "runner argv cwd = Inr result" and "stdout result = S" and "returncode result = 0"
  shows "sublist (''STDOUT:\<newline>'' @ S) (sys_stdout (run_and_report runner argv cwd initial_process))
       \<and> sublist ''Return code: 0'' (sys_stdout (run_and_report runner argv cwd initial_process))"
proof -
  let ?printed = "sys_stdout (run_and_report runner argv cwd initial_process)"
  have shape: "?printed = ''STDOUT:\<newline>'' @ S @ ''\<newline>\<newline>STDERR:\<newline>'' @ stderr result
      @ ''\<newline>\<newline>Return code: 0\<newline>''"
    using assms by (simp add: run_and_report_result report_stdout str_int_0 initial_process_def)
  have "?printed = [] @ (''STDOUT:\<newline>'' @ S) @ (''\<newline>\<newline>STDERR:\<newline>'' @ stderr result
      @ ''\<newline>\<newline>Return code: 0\<newline>'')"
    by (simp add: shape)
  then have first: "sublist (''STDOUT:\<newline>'' @ S) ?printed"
    unfolding sublist_def by blast
  have "?printed = (''STDOUT:\<newline>'' @ S @ ''\<newline>\<newline>STDERR:\<newline>'' @ stderr result @ ''\<newline>\<newline>'')
      @ ''Return code: 0'' @ ''\<newline>''"
    by (simp add: shape)
  then have second: "sublist ''Return code: 0'' ?printed"
    unfolding sublist_def by blast
  from first second show ?thesis by simp
qed

theorem report_contains_stdout_block_witness:
  "sublist ''STDOUT:\<newline>test result: ok\<newline>''
     (sys_stdout (run_and_report (\<lambda>argv cwd. Inr \<lparr>stdout = ''test result: ok\<newline>'', stderr = ''Finished'', returncode = 0\<rparr>)
        [''cargo'', ''test''] ''/tmp'' initial_process))
   \<and> sublist ''Return code: 0''
     (sys_stdout (run_and_report (\<lambda>argv cwd. Inr \<lparr>stdout = ''test result: ok\<newline>'', stderr = ''Finished'', returncode = 0\<rparr>)
        [''cargo'', ''test''] ''/tmp'' initial_process))"
  using report_contains_stdout_block
    [of "\<lambda>argv cwd. Inr \<lparr>stdout = ''test result: ok\<newline>'', stderr = ''Finished'', returncode = 0\<rparr>"
      "[''cargo'', ''test'']" "''/tmp''"
      "\<lparr>stdout = ''test result: ok\<newline>'', stderr = ''Finished'', returncode = 0\<rparr>"
      "''test result: ok\<newline>''"]
  by simp

subsection \<open>Exit codes and streams\<close>

text \<open>
  C5. Whenever the child terminates, with any exit code, the exit status of the wrapper
  is 0: the exit code of the child is printed, never passed on.
\<close>

theorem wrapper_exit_status_zero:
  "runner argv cwd = Inr result \<Longrightarrow> exit_status (run_and_report runner argv cwd p) = Some 0"
  by (simp add: run_and_report_result)

theorem wrapper_exit_status_zero_witness:
  "exit_status (run_and_report (\<lambda>argv cwd. Inr \<lparr>stdout = '''', stderr = ''test failed\<newline>'', returncode = 101\<rparr>)
     [''cargo'', ''test''] ''/tmp'' initial_process) = Some 0"
  using wrapper_exit_status_zero [of "\<lambda>argv cwd. Inr \<lparr>stdout = '''', stderr = ''test failed\<newline>'', returncode = 101\<rparr>"
      "[''cargo'', ''test'']" "''/tmp''" "\<lparr>stdout = '''', stderr = ''test failed\<newline>'', returncode = 101\<rparr>" initial_process]
  by simp

text \<open>
  C10. Whatever the child wrote and whatever its exit code, the wrapper leaves its own
  standard error stream as it was: all it emits, the report, is appended to its standard
  output.
\<close>

theorem wrapper_never_writes_stderr:
  "runner argv cwd = Inr result \<Longrightarrow>
     sys_stderr (run_and_report runner argv cwd p) = sys_stderr p \<and>
     sys_stdout (run_and_report runner argv cwd p) = sys_stdout p @ sys_stdout (report result initial_process)"
  by (simp add: run_and_report_result report_stdout report_stderr initial_process_def)

theorem wrapper_never_writes_stderr_witness:
  "sys_stderr (run_and_report (\<lambda>argv cwd. Inr \<lparr>stdout = ''out'', stderr = ''error: failed\<newline>'', returncode = 101\<rparr>)
     [''cargo'', ''test''] ''/tmp'' initial_process) = []
   \<and> sys_stdout (run_and_report (\<lambda>argv cwd. Inr \<lparr>stdout = ''out'', stderr = ''error: failed\<newline>'', returncode = 101\<rparr>)
     [''cargo'', ''test''] ''/tmp'' initial_process) =
       sys_stdout (report \<lparr>stdout = ''out'', stderr = ''error: failed\<newline>'', returncode = 101\<rparr> initial_process)"
  using wrapper_never_writes_stderr
    [of "\<lambda>argv cwd. Inr \<lparr>stdout = ''out'', stderr = ''error: failed\<newline>'', returncode = 101\<rparr>"
      "[''cargo'', ''test'']" "''/tmp''"
      "\<lparr>stdout = ''out'', stderr = ''error: failed\<newline>'', returncode = 101\<rparr>" initial_process]
  by (simp add: initial_process_streams)

subsection \<open>The Runner\<close>

text \<open>
  C3. If the working directory does not exist, the Runner fails with LaunchError before
  any child process is spawned (the machine, and with it the count of process-table
  entries, is as before), and the failure ends the program before any part of the report
  is printed: the standard output is untouched and the program ends on the uncaught
  exception.
\<close>

theorem missing_cwd_aborts_before_report:
  assumes "cwd \<notin> set (directories os)"
  shows "subprocess_run os argv cwd = (Inl LaunchError, os)
       \<and> spawned (snd (subprocess_run os argv cwd)) = spawned os
       \<and> run_and_report (runner_of os) argv cwd p = uncaught LaunchError p
       \<and> sys_stdout (run_and_report (runner_of os) argv cwd p) = sys_stdout p"
proof -
  have run: "subprocess_run os argv cwd = (Inl LaunchError, os)"
    using assms by (rule subprocess_run_missing_cwd)
  then have "runner_of os argv cwd = Inl LaunchError"
    by (simp add: runner_of_def)
  then have "run_and_report (runner_of os) argv cwd p = uncaught LaunchError p"
    by (rule run_and_report_error)
  with run show ?thesis by (simp add: uncaught_def)
qed

theorem missing_cwd_aborts_before_report_witness:
  "''/nowhere'' \<notin> set (directories example_os)
   \<and> subprocess_run example_os [''echo'', ''hello''] ''/nowhere'' = (Inl LaunchError, example_os)
   \<and> spawned (snd (subprocess_run example_os [''echo'', ''hello''] ''/nowhere'')) = 0
   \<and> sys_stdout (run_and_report (runner_of example_os) [''echo'', ''hello''] ''/nowhere'' initial_process) = []
   \<and> exit_status (run_and_report (runner_of example_os) [''echo'', ''hello''] ''/nowhere'' initial_process) = Some 1"
proof -
  have h: "''/nowhere'' \<notin> set (directories example_os)"
    by (simp add: example_os_def)
  have "spawned example_os = 0"
    by (simp add: example_os_def)
  with h missing_cwd_aborts_before_report [OF h, of "[''echo'', ''hello'']" initial_process]
  show ?thesis
    by (simp add: initial_process_streams uncaught_def)
qed




text \<open>
  C8. Two invocations of the Runner, one after the other, with the same argument vector
  and working directory, against a deterministic child that is free of side effects, give
  completed processes with the same exit code, the same standard output and the same
  standard error.
\<close>

theorem runner_idempotent:
  assumes first: "subprocess_run os argv cwd = (Inr r1, os1)"
    and second: "subprocess_run os1 argv cwd = (Inr r2, os2)"
    and pure: "side_effect_free os argv cwd"
  shows "returncode r1 = returncode r2 \<and> stdout r1 = stdout r2 \<and> stderr r1 = stderr r2"
proof (cases argv)
  case Nil
  with first show ?thesis by (simp add: subprocess_run_def split: if_splits)
next
  case (Cons exe args)
  show ?thesis
  proof (cases "map_of (search_path os) exe")
    case None
    with first Cons show ?thesis by (simp add: subprocess_run_def split: if_splits)
  next
    case (Some prog)
    from pure Cons Some have same: "snd (prog argv cwd (world os)) = world os"
      by (simp add: side_effect_free_def)
    from first Cons Some have r1: "r1 = fst (prog argv cwd (world os))"
      and os1: "os1 = os\<lparr>spawned := Suc (spawned os), world := snd (prog argv cwd (world os))\<rparr>"
      by (auto simp add: subprocess_run_def split: if_splits prod.splits)
    from os1 same have "world os1 = world os" and "search_path os1 = search_path os"
      by simp_all
    with second Cons Some have "r2 = fst (prog argv cwd (world os))"
      by (auto simp add: subprocess_run_def split: if_splits prod.splits)
    with r1 show ?thesis by simp
  qed
qed

theorem runner_idempotent_witness:
  "subprocess_run example_os [''echo'', ''hello''] ''/tmp''
     = (Inr \<lparr>stdout = ''hello\<newline>'', stderr = [], returncode = 0\<rparr>, example_os\<lparr>spawned := 1\<rparr>)
   \<and> subprocess_run (example_os\<lparr>spawned := 1\<rparr>) [''echo'', ''hello''] ''/tmp''
     = (Inr \<lparr>stdout = ''hello\<newline>'', stderr = [], returncode = 0\<rparr>, example_os\<lparr>spawned := 2\<rparr>)
   \<and> side_effect_free example_os [''echo'', ''hello''] ''/tmp''"
proof -
  have a: "subprocess_run example_os [''echo'', ''hello''] ''/tmp''
     = (Inr \<lparr>stdout = ''hello\<newline>'', stderr = [], returncode = 0\<rparr>, example_os\<lparr>spawned := 1\<rparr>)"
    by (simp add: subprocess_run_def example_os_def echo_def)
  have b: "subprocess_run (example_os\<lparr>spawned := 1\<rparr>) [''echo'', ''hello''] ''/tmp''
     = (Inr \<lparr>stdout = ''hello\<newline>'', stderr = [], returncode = 0\<rparr>, example_os\<lparr>spawned := 2\<rparr>)"
    by (simp add: subprocess_run_def example_os_def echo_def)
  have c: "side_effect_free example_os [''echo'', ''hello''] ''/tmp''"
    by (simp add: side_effect_free_def example_os_def echo_def)
  from runner_idempotent [OF a b c] a b c show ?thesis by simp
qed

end
